theory Spec2Isabelle
  imports Complex_Main "HOL-Library.Word" "HOL-Library.Multiset" "HOL-Library.Log_Nat"
begin

section \<open>Go values shared by the whole file\<close>

text \<open>
  The program is \<^verbatim>\<open>signalform/util.go\<close>. A Go function either returns or
  panics; the model makes the panic a value. Go's \<^verbatim>\<open>int\<close> is taken at its
  64-bit width (the width on amd64 and arm64), so that \<open>*\<close> wraps as the compiled
  code does. A finite \<^verbatim>\<open>float64\<close> is the real number it stands for, and two
  of them compare as the reals do; their sum is rounded, as \<open>float64_add\<close> below
  says. JSON has no infinity and no NaN, so none reaches the code.
\<close>

datatype panic = NilDereference | IndexOutOfRange | TypeAssertion

datatype 'a outcome = Return 'a | Panic panic

type_synonym go_int = "64 word"

text \<open>Indexing a slice: \<^verbatim>\<open>ss[i]\<close> panics when \<open>i\<close> is out of range.\<close>

definition index :: "'a list \<Rightarrow> nat \<Rightarrow> 'a outcome" where
  "index xs i = (if i < length xs then Return (xs ! i) else Panic IndexOutOfRange)"

text \<open>\<^verbatim>\<open>strings.HasPrefix\<close> and \<^verbatim>\<open>strings.Contains\<close>, on bytes.\<close>

fun HasPrefix :: "string \<Rightarrow> string \<Rightarrow> bool" where
  "HasPrefix s [] = True"
| "HasPrefix [] (p # ps) = False"
| "HasPrefix (c # cs) (p # ps) = (c = p \<and> HasPrefix cs ps)"

fun Contains :: "string \<Rightarrow> string \<Rightarrow> bool" where
  "Contains [] sub = (sub = [])"
| "Contains (c # cs) sub = (HasPrefix (c # cs) sub \<or> Contains cs sub)"

section \<open>The relative-time pattern\<close>

text \<open>
  Two regular expressions occur in the source: \<^verbatim>\<open>-([0-9]+)[mhdw]\<close> in the
  validator and \<^verbatim>\<open>-([0-9]+)([mhdw])\<close> in the parser. They differ only in
  the second capture group. \<open>rexp\<close> is the fragment of the regular-expression syntax
  they use, and \<open>lang\<close> the set of strings an expression matches in full; capture
  groups do not change it.
\<close>

datatype rexp =
    Lit char
  | Class string
  | Seq rexp rexp
  | Plus rexp
  | Group rexp

fun lang :: "rexp \<Rightarrow> string set" where
  "lang (Lit c) = {[c]}"
| "lang (Class cs) = {[c] | c. c \<in> set cs}"
| "lang (Seq r s) = {u @ v | u v. u \<in> lang r \<and> v \<in> lang s}"
| "lang (Plus r) = {concat ws | ws. ws \<noteq> [] \<and> set ws \<subseteq> lang r}"
| "lang (Group r) = lang r"


definition parser_pattern :: rexp where
  "parser_pattern =
     Seq (Lit (CHR ''-''))
       (Seq (Group (Plus (Class ''0123456789''))) (Group (Class ''mhdw'')))"

text \<open>
  Go's \<^verbatim>\<open>MatchString\<close> and \<^verbatim>\<open>FindStringSubmatch\<close> search: the
  pattern is not anchored, so a match may start anywhere in the string and the
  leftmost one is taken. \<open>contains_match\<close> says so in terms of \<open>lang\<close>.
\<close>

definition contains_match :: "rexp \<Rightarrow> string \<Rightarrow> bool" where
  "contains_match r s = (\<exists>pre w suf. s = pre @ w @ suf \<and> w \<in> lang r)"

text \<open>
  The shape \<^verbatim>\<open>-<integer><unit>\<close> of the specification, written out: a dash, one
  or more decimal digits, one of the four unit characters, and nothing else.
\<close>

definition is_digit :: "char \<Rightarrow> bool" where
  "is_digit c = (c \<in> set ''0123456789'')"

definition is_unit_char :: "char \<Rightarrow> bool" where
  "is_unit_char c = (c \<in> set ''mhdw'')"

definition relative_time_shape :: "string set" where
  "relative_time_shape =
     {CHR ''-'' # ds @ [u] | ds u. ds \<noteq> [] \<and> list_all is_digit ds \<and> is_unit_char u}"

text \<open>
  A match that starts at the head of \<open>s\<close>: a dash, the longest run of digits
  (\<^verbatim>\<open>+\<close> is greedy), then one unit character. A shorter run of digits cannot
  match, because the character after it is a digit and not a unit. The result is the
  slice of the whole match and the two groups, or the nil slice.
\<close>

definition submatch_at :: "string \<Rightarrow> string list" where
  "submatch_at s =
     (case s of
        [] \<Rightarrow> []
      | c # rest \<Rightarrow>
          if c \<noteq> CHR ''-'' then []
          else
            (let ds = takeWhile is_digit rest in
             case dropWhile is_digit rest of
               [] \<Rightarrow> []
             | u # _ \<Rightarrow> if ds \<noteq> [] \<and> is_unit_char u then [c # ds @ [u], ds, [u]] else []))"

fun FindStringSubmatch :: "string \<Rightarrow> string list" where
  "FindStringSubmatch [] = []"
| "FindStringSubmatch (c # cs) =
     (case submatch_at (c # cs) of
        [] \<Rightarrow> FindStringSubmatch cs
      | m # ms \<Rightarrow> m # ms)"

definition matches_at :: "string \<Rightarrow> bool" where
  "matches_at s =
     (case s of
        [] \<Rightarrow> False
      | c # rest \<Rightarrow>
          c = CHR ''-'' \<and> takeWhile is_digit rest \<noteq> [] \<and>
          (case dropWhile is_digit rest of [] \<Rightarrow> False | u # _ \<Rightarrow> is_unit_char u))"

fun MatchString :: "string \<Rightarrow> bool" where
  "MatchString [] = False"
| "MatchString (c # cs) = (matches_at (c # cs) \<or> MatchString cs)"

section \<open>Validators\<close>


section \<open>The time-range parser\<close>

text \<open>
  \<^verbatim>\<open>strconv.Atoi\<close>: an optional sign, then decimal digits only; a value
  outside the 64-bit range is a range error.
\<close>

datatype num_error = ErrSyntax | ErrRange

definition digit_val :: "char \<Rightarrow> nat" where
  "digit_val c = of_char c - 48"

definition dec :: "string \<Rightarrow> nat" where
  "dec ds = foldl (\<lambda>n c. 10 * n + digit_val c) 0 ds"

definition Atoi :: "string \<Rightarrow> num_error + go_int" where
  "Atoi s =
     (let (neg, ds) =
        (case s of
           [] \<Rightarrow> (False, [])
         | c # cs \<Rightarrow>
             if c = CHR ''-'' then (True, cs)
             else if c = CHR ''+'' then (False, cs)
             else (False, s))
      in
        if ds = [] \<or> \<not> list_all is_digit ds then Inl ErrSyntax
        else if neg then
          (if dec ds \<le> 2 ^ 63 then Inr (- word_of_nat (dec ds)) else Inl ErrRange)
        else
          (if dec ds < 2 ^ 63 then Inr (word_of_nat (dec ds)) else Inl ErrRange))"

text \<open>
  The parser indexes the slice of submatches without looking at its length, reads the
  unit from group 2, and multiplies in \<^verbatim>\<open>int\<close>.
\<close>

definition multiplier :: "string \<Rightarrow> go_int" where
  "multiplier u =
     (if u = ''m'' then 60 * 1000
      else if u = ''h'' then 60 * 60 * 1000
      else if u = ''d'' then 24 * 60 * 60 * 1000
      else if u = ''w'' then 7 * 24 * 60 * 60 * 1000
      else 1)"

text \<open>
  The multiplier table as the specification gives it, in milliseconds for each unit
  character, with 1 for any other character. It is the table the parser is compared
  with.
\<close>

definition spec_multiplier :: "char \<Rightarrow> nat" where
  "spec_multiplier u =
     (if u = CHR ''m'' then 60000
      else if u = CHR ''h'' then 3600000
      else if u = CHR ''d'' then 86400000
      else if u = CHR ''w'' then 604800000
      else 1)"

definition fromRangeToMilliSeconds :: "string \<Rightarrow> (go_int \<times> num_error option) outcome" where
  "fromRangeToMilliSeconds timeRange =
     (let ss = FindStringSubmatch timeRange in
      case index ss 2 of
        Panic p \<Rightarrow> Panic p
      | Return u \<Rightarrow>
          (let c = multiplier u in
           case index ss 1 of
             Panic p \<Rightarrow> Panic p
           | Return n \<Rightarrow>
               (case Atoi n of
                  Inl err \<Rightarrow> Return (- 1, Some err)
                | Inr val \<Rightarrow> Return (val * c, None))))"

section \<open>The color-scale builder\<close>

text \<open>
  \<^verbatim>\<open>sort.Sort\<close> orders a slice by the \<^verbatim>\<open>Less\<close> of its argument, and
  \<^verbatim>\<open>sort.Reverse(sort.IntSlice(xs))\<close> has \<^verbatim>\<open>Less(i, j) = xs[j] < xs[i]\<close>.
  On integers the ordered permutation is unique, so any sorting algorithm computes what
  the library does; insertion by \<open>lessf\<close> is used here. The thresholds are only
  compared, never added or multiplied, so they are read as integers.
\<close>

fun insert_by :: "('a \<Rightarrow> 'a \<Rightarrow> bool) \<Rightarrow> 'a \<Rightarrow> 'a list \<Rightarrow> 'a list" where
  "insert_by lessf x [] = [x]"
| "insert_by lessf x (y # ys) = (if lessf y x then y # insert_by lessf x ys else x # y # ys)"

definition Sort :: "('a \<Rightarrow> 'a \<Rightarrow> bool) \<Rightarrow> 'a list \<Rightarrow> 'a list" where
  "Sort lessf xs = foldr (insert_by lessf) xs []"

definition IntSlice_Less :: "int \<Rightarrow> int \<Rightarrow> bool" where
  "IntSlice_Less a b = (a < b)"

definition Reverse :: "('a \<Rightarrow> 'a \<Rightarrow> bool) \<Rightarrow> 'a \<Rightarrow> 'a \<Rightarrow> bool" where
  "Reverse lessf a b = lessf b a"

record color_scale =
  thresholds :: "int list"
  inverted :: bool

text \<open>
  The argument is the list \<^verbatim>\<open>d.Get("color_scale").(*schema.Set).List()\<close>; the
  code takes element 0 of it without a check.
\<close>

definition getColorScaleOptions :: "color_scale list \<Rightarrow> color_scale outcome" where
  "getColorScaleOptions color_scale_list =
     (case index color_scale_list 0 of
        Panic p \<Rightarrow> Panic p
      | Return options \<Rightarrow>
          Return \<lparr>thresholds = Sort (Reverse IntSlice_Less) (thresholds options),
                  inverted = inverted options\<rparr>)"

section \<open>The HTTP transport\<close>

text \<open>
  The network and \<^verbatim>\<open>net/http\<close> are the environment. \<open>request_error\<close> is
  the check \<^verbatim>\<open>http.NewRequest\<close> makes on the method and the URL (\<open>None\<close>
  when both are well formed); \<open>round_trip\<close> is \<^verbatim>\<open>client.Do\<close>: the cause
  of a failure, or the response. The body of a response is read by
  \<^verbatim>\<open>ioutil.ReadAll\<close>, which yields all its bytes or fails.
\<close>

record request =
  Method :: string
  URL :: string
  Payload :: string
  Header :: "(string \<times> string) list"

datatype body = Readable string | Broken string

record response =
  StatusCode :: int
  Body :: body

record http_env =
  request_error :: "string \<Rightarrow> string \<Rightarrow> string option"
  round_trip :: "request \<Rightarrow> string + response"

fun ReadAll :: "body \<Rightarrow> string + string" where
  "ReadAll (Readable bs) = Inr bs"
| "ReadAll (Broken cause) = Inl cause"

text \<open>
  One constructor for each \<^verbatim>\<open>fmt.Errorf\<close> of the source, holding the
  arguments of its format string:
  \<^item> \<open>SendFailed\<close>: \<^verbatim>\<open>Failed sending %s request to Signalfx: %s\<close>;
  \<^item> \<open>ReadFailed\<close>: \<^verbatim>\<open>Failed reading response body from %s request: %s\<close>;
  \<^item> \<open>DeleteFailed\<close>: \<^verbatim>\<open>Failed deleting resource  %s: %s\<close>;
  \<^item> \<open>UnmarshalFailed\<close>: \<^verbatim>\<open>Failed unmarshaling for the resource %s during ...: %s\<close>,
    with \<^verbatim>\<open>read\<close> or \<^verbatim>\<open>creation\<close> for the dots;
  \<^item> \<open>BadStatus\<close>: \<^verbatim>\<open>For the resource %s SignalFx returned status %d: \n%s\<close>.
  \<open>kind\<close> sorts them into the three kinds of the specification.
\<close>

datatype error =
    SendFailed string string
  | ReadFailed string string
  | DeleteFailed string error
  | UnmarshalFailed string string string
  | BadStatus string int string

datatype error_kind = TransportError | DecodeError | UpstreamError

fun kind :: "error \<Rightarrow> error_kind" where
  "kind (SendFailed method cause) = TransportError"
| "kind (ReadFailed method cause) = TransportError"
| "kind (DeleteFailed name cause) = TransportError"
| "kind (UnmarshalFailed name during cause) = DecodeError"
| "kind (BadStatus name status_code resp_body) = UpstreamError"

text \<open>
  The result of \<^verbatim>\<open>http.NewRequest\<close> is used without a look at its error:
  when the request is \<^verbatim>\<open>nil\<close>, \<^verbatim>\<open>req.Header.Add\<close> dereferences it.
  A nil byte slice is \<open>None\<close>.
\<close>

definition sendRequest ::
  "http_env \<Rightarrow> string \<Rightarrow> string \<Rightarrow> string \<Rightarrow> string \<Rightarrow> (int \<times> string option \<times> error option) outcome"
where
  "sendRequest env method url token payload =
     (case request_error env method url of
        Some cause \<Rightarrow> Panic NilDereference
      | None \<Rightarrow>
          (let req = \<lparr>Method = method, URL = url, Payload = payload, Header = []\<rparr>;
               req = req\<lparr>Header := Header req @ [(''Content-Type'', ''application/json'')]\<rparr>;
               req = req\<lparr>Header := Header req @ [(''X-SF-Token'', token)]\<rparr>
           in
             case round_trip env req of
               Inl cause \<Rightarrow> Return (- 1, None, Some (SendFailed method cause))
             | Inr resp \<Rightarrow>
                 (case ReadAll (Body resp) of
                    Inl cause \<Rightarrow> Return (StatusCode resp, None, Some (ReadFailed method cause))
                  | Inr bs \<Rightarrow> Return (StatusCode resp, Some bs, None))))"

section \<open>The resource operations\<close>

text \<open>
  \<^verbatim>\<open>json.Unmarshal\<close> into a \<^verbatim>\<open>map[string]interface{}\<close> is a parameter
  of the operations: it fails with a cause or gives the map of the decoded object. A
  type assertion \<^verbatim>\<open>x.(T)\<close> without the second result panics on a missing key
  (the nil interface) and on a value of another type.
\<close>

datatype json =
    JNull
  | JBool bool
  | JNumber real
  | JString string
  | JArray "json list"
  | JObject "(string \<times> json) list"

type_synonym decoder = "string \<Rightarrow> string + (string \<rightharpoonup> json)"

definition as_float64 :: "json option \<Rightarrow> real outcome" where
  "as_float64 v = (case v of Some (JNumber x) \<Rightarrow> Return x | _ \<Rightarrow> Panic TypeAssertion)"

definition as_string :: "json option \<Rightarrow> string outcome" where
  "as_string v = (case v of Some (JString s) \<Rightarrow> Return s | _ \<Rightarrow> Panic TypeAssertion)"

definition bytes :: "string option \<Rightarrow> string" where
  "bytes b = (case b of None \<Rightarrow> [] | Some bs \<Rightarrow> bs)"

text \<open>
  The \<^verbatim>\<open>+\<close> of two \<^verbatim>\<open>float64\<close> values is the IEEE 754 sum: the real sum
  rounded to 53 significant bits, to the nearest such number, and to the one with the
  even significand when two are equally near. \<open>round_half_even a k\<close> rounds a
  natural number to a multiple of \<open>2 ^ k\<close> in that way, and \<open>round53\<close> keeps the
  53 leading bits of an integer. Every finite \<^verbatim>\<open>float64\<close> is an integer multiple
  of \<open>2 ^ -1074\<close>, so the sum of two of them, times \<open>2 ^ 1074\<close>, is an integer, and
  \<open>float64_add\<close> rounds that integer. Adding \<^verbatim>\<open>OFFSET\<close> to a finite value does
  not overflow: the largest \<^verbatim>\<open>float64\<close> plus 10000 rounds back to it.
\<close>

definition round_half_even :: "int \<Rightarrow> nat \<Rightarrow> int" where
  "round_half_even a k =
     (let q = a div 2 ^ k;
          r = a mod 2 ^ k;
          q' = (if 2 * r > 2 ^ k \<or> (2 * r = 2 ^ k \<and> odd q) then q + 1 else q)
      in q' * 2 ^ k)"

definition round53 :: "int \<Rightarrow> int" where
  "round53 S = sgn S * round_half_even \<bar>S\<bar> (nat (bitlen \<bar>S\<bar> - 53))"

definition float64_add :: "real \<Rightarrow> real \<Rightarrow> real" where
  "float64_add x y = real_of_int (round53 \<lfloor>(x + y) * 2 ^ 1074\<rfloor>) / 2 ^ 1074"

definition OFFSET :: real where
  "OFFSET = 10000.0"

text \<open>
  The local state \<^verbatim>\<open>*schema.ResourceData\<close>: the identifier behind
  \<^verbatim>\<open>d.Id()\<close> and \<^verbatim>\<open>d.SetId\<close>, and the three fields the operations get and
  set by name, at the types the code asserts. Every other field of a resource is in the
  extension of the record.
\<close>

record resource_data =
  rid :: string
  name :: string
  last_updated :: real
  synced :: bool

text \<open>
  Read takes the addition of the comparison as its first argument \<open>fadd\<close>; the code
  is \<open>resourceRead float64_add\<close>.
\<close>

definition resourceRead ::
  "(real \<Rightarrow> real \<Rightarrow> real) \<Rightarrow> http_env \<Rightarrow> decoder \<Rightarrow> string \<Rightarrow> string \<Rightarrow>
     'a resource_data_scheme \<Rightarrow> ('a resource_data_scheme \<times> error option) outcome"
where
  "resourceRead fadd env unmarshal url sfxToken d =
     (case sendRequest env ''GET'' url sfxToken [] of
        Panic p \<Rightarrow> Panic p
      | Return (status_code, resp_body, err) \<Rightarrow>
          if status_code = 200 then
            (case unmarshal (bytes resp_body) of
               Inl cause \<Rightarrow> Return (d, Some (UnmarshalFailed (name d) ''read'' cause))
             | Inr mapped_resp \<Rightarrow>
                 (case as_float64 (mapped_resp ''lastUpdated'') of
                    Panic p \<Rightarrow> Panic p
                  | Return remote \<Rightarrow>
                      if remote > fadd (last_updated d) OFFSET
                      then Return (d\<lparr>synced := False, last_updated := remote\<rparr>, None)
                      else Return (d, None)))
          else if Contains (bytes resp_body) ''Resource not found''
          then Return (d\<lparr>rid := []\<rparr>, None)
          else Return (d, Some (BadStatus (name d) status_code (bytes resp_body))))"

definition resourceCreate ::
  "http_env \<Rightarrow> decoder \<Rightarrow> string \<Rightarrow> string \<Rightarrow> string \<Rightarrow> 'a resource_data_scheme \<Rightarrow>
     ('a resource_data_scheme \<times> error option) outcome"
where
  "resourceCreate env unmarshal url sfxToken payload d =
     (case sendRequest env ''POST'' url sfxToken payload of
        Panic p \<Rightarrow> Panic p
      | Return (status_code, resp_body, err) \<Rightarrow>
          if status_code = 200 then
            (case unmarshal (bytes resp_body) of
               Inl cause \<Rightarrow> Return (d, Some (UnmarshalFailed (name d) ''creation'' cause))
             | Inr mapped_resp \<Rightarrow>
                 (case as_string (mapped_resp ''id'') of
                    Panic p \<Rightarrow> Panic p
                  | Return new_id \<Rightarrow>
                      (let d = d\<lparr>rid := new_id\<rparr> in
                       case as_float64 (mapped_resp ''lastUpdated'') of
                         Panic p \<Rightarrow> Panic p
                       | Return remote \<Rightarrow>
                           (let d = d\<lparr>last_updated := remote\<rparr>;
                                d = d\<lparr>synced := True\<rparr>
                            in Return (d, None)))))
          else Return (d, Some (BadStatus (name d) status_code (bytes resp_body))))"

definition resourceDelete ::
  "http_env \<Rightarrow> string \<Rightarrow> string \<Rightarrow> 'a resource_data_scheme \<Rightarrow>
     ('a resource_data_scheme \<times> error option) outcome"
where
  "resourceDelete env url sfxToken d =
     (case sendRequest env ''DELETE'' url sfxToken [] of
        Panic p \<Rightarrow> Panic p
      | Return (status_code, resp_body, err) \<Rightarrow>
          (case err of
             Some e \<Rightarrow> Return (d, Some (DeleteFailed (name d) e))
           | None \<Rightarrow>
               if status_code < 400 \<or> status_code = 404
               then Return (d\<lparr>rid := []\<rparr>, None)
               else Return (d, Some (BadStatus (name d) status_code (bytes resp_body)))))"

section \<open>Environments and decoders for the concrete runs\<close>

text \<open>
  \<open>server\<close> is a network where every request is well formed and answered with a
  given status and body; \<open>refusing\<close> one where the connection fails;
  \<open>rejecting\<close> one where \<^verbatim>\<open>http.NewRequest\<close> refuses the URL, as it does for
  an invalid escape such as \<^verbatim>\<open>%zz\<close>. \<open>decoding\<close> is a decoder that knows the objects
  of a table of bodies and fails on every other body. The bodies are a created resource,
  an error of the service, and a chart with a title and a time stamp.
\<close>

definition server :: "int \<Rightarrow> string \<Rightarrow> http_env" where
  "server status_code bs =
     \<lparr>request_error = (\<lambda>method url. None),
      round_trip = (\<lambda>req. Inr \<lparr>StatusCode = status_code, Body = Readable bs\<rparr>)\<rparr>"

definition refusing :: http_env where
  "refusing =
     \<lparr>request_error = (\<lambda>method url. None),
      round_trip = (\<lambda>req. Inl ''connection refused'')\<rparr>"

definition rejecting :: http_env where
  "rejecting =
     \<lparr>request_error = (\<lambda>method url. if Contains url ''%zz'' then Some ''invalid URL escape'' else None),
      round_trip = (\<lambda>req. Inr \<lparr>StatusCode = 200, Body = Readable []\<rparr>)\<rparr>"

definition decoding :: "(string \<times> (string \<times> json) list) list \<Rightarrow> decoder" where
  "decoding table bs =
     (case map_of table bs of
        None \<Rightarrow> Inl ''invalid character''
      | Some kvs \<Rightarrow> Inr (map_of kvs))"

definition created_body :: string where
  \<open>created_body = ''{"id":"abc","lastUpdated":1000}''\<close>

definition not_found_body :: string where
  \<open>not_found_body = ''{"code":404,"message":"Resource not found"}''\<close>

definition chart_body :: "string \<Rightarrow> string \<Rightarrow> string" where
  \<open>chart_body title stamp = ''{"name":"'' @ title @ ''","lastUpdated":'' @ stamp @ ''}''\<close>

section \<open>Substrings and the language of the pattern\<close>

lemma HasPrefix_iff: "HasPrefix s p \<longleftrightarrow> (\<exists>suf. s = p @ suf)"
  by (induction s p rule: HasPrefix.induct) auto

lemma Contains_iff: "Contains s sub \<longleftrightarrow> (\<exists>pre suf. s = pre @ sub @ suf)"
proof (induction s)
  case Nil
  then show ?case by auto
next
  case (Cons c cs)
  show ?case
  proof
    assume "Contains (c # cs) sub"
    then consider "HasPrefix (c # cs) sub" | "Contains cs sub" by auto
    then show "\<exists>pre suf. c # cs = pre @ sub @ suf"
    proof cases
      case 1
      then obtain suf where "c # cs = sub @ suf" by (auto simp: HasPrefix_iff)
      then have "c # cs = [] @ sub @ suf" by simp
      then show ?thesis by blast
    next
      case 2
      then obtain pre suf where "cs = pre @ sub @ suf" using Cons.IH by auto
      then have "c # cs = (c # pre) @ sub @ suf" by simp
      then show ?thesis by blast
    qed
  next
    assume "\<exists>pre suf. c # cs = pre @ sub @ suf"
    then obtain pre suf where eq: "c # cs = pre @ sub @ suf" by auto
    show "Contains (c # cs) sub"
    proof (cases pre)
      case Nil
      then have "HasPrefix (c # cs) sub" using eq by (auto simp: HasPrefix_iff)
      then show ?thesis by simp
    next
      case (Cons a pre')
      then have "cs = pre' @ sub @ suf" using eq by simp
      then have "Contains cs sub" using Cons.IH by blast
      then show ?thesis by simp
    qed
  qed
qed

lemma concat_digits:
  "set ws \<subseteq> {[c] | c. is_digit c} \<Longrightarrow> list_all is_digit (concat ws) \<and> (ws \<noteq> [] \<longrightarrow> concat ws \<noteq> [])"
  by (induction ws) auto

lemma lang_digit_class: "lang (Class ''0123456789'') = {[c] | c. is_digit c}"
  by (simp add: is_digit_def)

lemma lang_digits:
  "lang (Plus (Class ''0123456789'')) = {ds. ds \<noteq> [] \<and> list_all is_digit ds}"
proof (rule set_eqI, rule iffI)
  fix x assume "x \<in> lang (Plus (Class ''0123456789''))"
  then obtain ws where ws: "x = concat ws" "ws \<noteq> []" "set ws \<subseteq> {[c] | c. is_digit c}"
    unfolding lang.simps(4) lang_digit_class by blast
  from concat_digits[OF ws(3)] ws show "x \<in> {ds. ds \<noteq> [] \<and> list_all is_digit ds}" by simp
next
  fix x assume "x \<in> {ds. ds \<noteq> [] \<and> list_all is_digit ds}"
  then have x: "x \<noteq> []" "list_all is_digit x" by auto
  let ?ws = "map (\<lambda>c. [c]) x"
  have 1: "x = concat ?ws" by (induction x) auto
  have 2: "?ws \<noteq> []" using x by simp
  have 3: "set ?ws \<subseteq> {[c] | c. is_digit c}"
    using x(2) by (auto simp: list_all_iff)
  from 1 2 3 show "x \<in> lang (Plus (Class ''0123456789''))"
    unfolding lang.simps(4) lang_digit_class by blast
qed

lemma lang_units: "lang (Class ''mhdw'') = {[u] | u. is_unit_char u}"
  by (simp add: is_unit_char_def)

lemma lang_dash_seq:
  "lang (Seq (Lit (CHR ''-'')) (Seq r1 r2)) = {CHR ''-'' # a @ b | a b. a \<in> lang r1 \<and> b \<in> lang r2}"
  by auto

lemma shape_alt:
  "relative_time_shape =
     {CHR ''-'' # a @ b | a b. a \<in> {ds. ds \<noteq> [] \<and> list_all is_digit ds} \<and> b \<in> {[u] | u. is_unit_char u}}"
  unfolding relative_time_shape_def by blast


lemma lang_parser: "lang parser_pattern = relative_time_shape"
  unfolding parser_pattern_def lang_dash_seq lang.simps(5) lang_digits lang_units shape_alt ..


lemma not_digit_unit: "is_unit_char u \<Longrightarrow> \<not> is_digit u"
  by (auto simp: is_unit_char_def is_digit_def)

lemma takeWhile_digits:
  "list_all is_digit ds \<Longrightarrow> \<not> is_digit u \<Longrightarrow> takeWhile is_digit (ds @ u # suf) = ds"
  by (induction ds) auto

lemma dropWhile_digits:
  "list_all is_digit ds \<Longrightarrow> \<not> is_digit u \<Longrightarrow> dropWhile is_digit (ds @ u # suf) = u # suf"
  by (induction ds) auto

lemma submatch_at_shape:
  assumes "ds \<noteq> []" "list_all is_digit ds" "is_unit_char u"
  shows "submatch_at (CHR ''-'' # ds @ u # suf) = [CHR ''-'' # ds @ [u], ds, [u]]"
  using assms by (simp add: submatch_at_def takeWhile_digits dropWhile_digits not_digit_unit)

lemma matches_at_iff:
  "matches_at s \<longleftrightarrow> (\<exists>w suf. s = w @ suf \<and> w \<in> relative_time_shape)"
proof
  assume m: "matches_at s"
  then obtain rest where s: "s = CHR ''-'' # rest"
    by (auto simp: matches_at_def split: list.splits)
  let ?ds = "takeWhile is_digit rest"
  from m s obtain u tl where d: "dropWhile is_digit rest = u # tl" "is_unit_char u" "?ds \<noteq> []"
    by (auto simp: matches_at_def split: list.splits)
  have "rest = ?ds @ u # tl" using d(1) takeWhile_dropWhile_id[of is_digit rest] by simp
  then have "s = (CHR ''-'' # ?ds @ [u]) @ tl" using s by simp
  moreover have "list_all is_digit ?ds" by (simp add: list_all_iff) (meson set_takeWhileD)
  then have "CHR ''-'' # ?ds @ [u] \<in> relative_time_shape"
    using d unfolding relative_time_shape_def by blast
  ultimately show "\<exists>w suf. s = w @ suf \<and> w \<in> relative_time_shape" by blast
next
  assume "\<exists>w suf. s = w @ suf \<and> w \<in> relative_time_shape"
  then obtain ds u suf where s: "s = CHR ''-'' # ds @ u # suf"
    and c: "ds \<noteq> []" "list_all is_digit ds" "is_unit_char u"
    unfolding relative_time_shape_def by auto
  show "matches_at s"
    using c unfolding s by (simp add: matches_at_def takeWhile_digits dropWhile_digits not_digit_unit)
qed

lemma submatch_at_Nil_iff: "submatch_at s = [] \<longleftrightarrow> \<not> matches_at s"
proof (cases s)
  case Nil
  then show ?thesis by (simp add: submatch_at_def matches_at_def)
next
  case (Cons c rest)
  show ?thesis
  proof (cases "dropWhile is_digit rest")
    case Nil
    then show ?thesis using Cons
      by (simp add: submatch_at_def matches_at_def del: dropWhile_eq_Nil_conv)
  next
    case (Cons u tl)
    then show ?thesis using \<open>s = c # rest\<close>
      by (simp add: submatch_at_def matches_at_def Let_def)
  qed
qed

lemma MatchString_iff:
  "MatchString s \<longleftrightarrow> (\<exists>pre w suf. s = pre @ w @ suf \<and> w \<in> relative_time_shape)"
proof (induction s)
  case Nil
  then show ?case by (auto simp: relative_time_shape_def)
next
  case (Cons c cs)
  show ?case
  proof
    assume "MatchString (c # cs)"
    then consider "matches_at (c # cs)" | "MatchString cs" by auto
    then show "\<exists>pre w suf. c # cs = pre @ w @ suf \<and> w \<in> relative_time_shape"
    proof cases
      case 1
      then obtain w suf where "c # cs = [] @ w @ suf" "w \<in> relative_time_shape"
        by (auto simp: matches_at_iff)
      then show ?thesis by blast
    next
      case 2
      then obtain pre w suf where "cs = pre @ w @ suf" "w \<in> relative_time_shape"
        using Cons.IH by auto
      then have "c # cs = (c # pre) @ w @ suf \<and> w \<in> relative_time_shape" by simp
      then show ?thesis by blast
    qed
  next
    assume "\<exists>pre w suf. c # cs = pre @ w @ suf \<and> w \<in> relative_time_shape"
    then obtain pre w suf where eq: "c # cs = pre @ w @ suf" and w: "w \<in> relative_time_shape"
      by auto
    show "MatchString (c # cs)"
    proof (cases pre)
      case Nil
      then have "matches_at (c # cs)" using eq w by (auto simp: matches_at_iff)
      then show ?thesis by simp
    next
      case (Cons a pre')
      then have "cs = pre' @ w @ suf" using eq by simp
      then have "MatchString cs" using Cons.IH w by blast
      then show ?thesis by simp
    qed
  qed
qed

lemma FindStringSubmatch_Nil_iff: "FindStringSubmatch s = [] \<longleftrightarrow> \<not> MatchString s"
proof (induction s)
  case Nil
  then show ?case by simp
next
  case (Cons c cs)
  show ?case
  proof (cases "submatch_at (c # cs)")
    case Nil
    then have "\<not> matches_at (c # cs)" by (simp add: submatch_at_Nil_iff)
    then show ?thesis using Nil Cons.IH by simp
  next
    case (Cons m ms)
    then have "matches_at (c # cs)" using submatch_at_Nil_iff[of "c # cs"] by simp
    then show ?thesis using Cons by simp
  qed
qed


lemma FindStringSubmatch_contains:
  "FindStringSubmatch s \<noteq> [] \<longleftrightarrow> contains_match parser_pattern s"
  by (simp add: FindStringSubmatch_Nil_iff MatchString_iff contains_match_def lang_parser)

section \<open>The time-range parser and the validator\<close>

lemma dec_snoc: "dec (ds @ [c]) = 10 * dec ds + digit_val c"
  by (simp add: dec_def)

lemma Atoi_digits:
  assumes "ds \<noteq> []" "list_all is_digit ds" "dec ds < 2 ^ 63"
  shows "Atoi ds = Inr (word_of_nat (dec ds))"
proof -
  obtain c cs where ds: "ds = c # cs" using assms(1) by (cases ds) auto
  then have "is_digit c" using assms(2) by simp
  then have "c \<noteq> CHR ''-''" "c \<noteq> CHR ''+''" by (auto simp: is_digit_def)
  then show ?thesis using assms ds by (simp add: Atoi_def)
qed

lemma FindStringSubmatch_shape:
  assumes "ds \<noteq> []" "list_all is_digit ds" "is_unit_char u"
  shows "FindStringSubmatch (CHR ''-'' # ds @ u # suf) = [CHR ''-'' # ds @ [u], ds, [u]]"
  by (simp add: submatch_at_shape[OF assms])

lemma FindStringSubmatch_length: "FindStringSubmatch s = [] \<or> length (FindStringSubmatch s) = 3"
proof (induction s)
  case Nil
  then show ?case by simp
next
  case (Cons c cs)
  have "submatch_at (c # cs) = [] \<or> length (submatch_at (c # cs)) = 3"
    by (simp add: submatch_at_def Let_def split: list.splits)
  then show ?case using Cons by (auto split: list.splits)
qed

lemma multiplier_unit: "is_unit_char u \<Longrightarrow> multiplier [u] = word_of_nat (spec_multiplier u)"
  by (auto simp: is_unit_char_def multiplier_def spec_multiplier_def)

lemma fromRange_shape:
  assumes "ds \<noteq> []" "list_all is_digit ds" "is_unit_char u" "dec ds < 2 ^ 63"
  shows "fromRangeToMilliSeconds (CHR ''-'' # ds @ u # suf) =
           Return (word_of_nat (dec ds * spec_multiplier u), None)"
proof -
  have ss: "FindStringSubmatch (CHR ''-'' # ds @ u # suf) = [CHR ''-'' # ds @ [u], ds, [u]]"
    using assms(1-3) by (rule FindStringSubmatch_shape)
  show ?thesis
    unfolding fromRangeToMilliSeconds_def ss
    by (simp add: index_def Atoi_digits[OF assms(1,2,4)] multiplier_unit[OF assms(3)])
qed

lemma sint_small:
  assumes "n < 2 ^ 63"
  shows "sint (word_of_nat n :: 64 word) = int n"
proof -
  have "int n < 2 ^ 63" using assms by (metis of_nat_less_numeral_power_cancel_iff)
  moreover have "- (2 ^ 63) \<le> int n" by (smt (verit) zero_le_power of_nat_0_le_iff)
  ultimately have "signed_take_bit 63 (int n) = int n"
    by (rule signed_take_bit_int_eq_self[rotated])
  then show ?thesis by (simp add: signed_of_nat)
qed

lemma fromRange_panic_iff:
  "fromRangeToMilliSeconds s = Panic IndexOutOfRange \<longleftrightarrow> FindStringSubmatch s = []"
  using FindStringSubmatch_length[of s]
  by (auto simp: fromRangeToMilliSeconds_def index_def Let_def split: sum.splits)

lemmas parser_eval =
  fromRangeToMilliSeconds_def submatch_at_def index_def is_digit_def is_unit_char_def
  multiplier_def Atoi_def dec_def digit_val_def

text \<open>
  Claim C2. The claim: on an input that does not match the shape, the parser does not
  crash, it guards before indexing the match groups and returns a parse error. The code
  has no guard: it panics with an index out of range exactly on the inputs in which the
  pattern finds no match, as on \<^verbatim>\<open>5m\<close>.
\<close>

theorem parser_panics_without_match:
  "fromRangeToMilliSeconds s = Panic IndexOutOfRange \<longleftrightarrow> \<not> contains_match parser_pattern s"
  using FindStringSubmatch_contains[of s] by (auto simp: fromRange_panic_iff)

theorem parser_panics_without_match_witness:
  "fromRangeToMilliSeconds ''5m'' = Panic IndexOutOfRange \<and>
   \<not> contains_match parser_pattern ''5m''"
  using parser_panics_without_match[of "''5m''"] by (simp add: parser_eval)

text \<open>
  Claim C3, as amended. For an input that starts with a dash, a run of digits of value
  \<open>N\<close> and a unit \<open>u\<close> among m, h, d and w, where \<open>N\<close> times the multiplier of
  \<open>u\<close> is in the range of \<^verbatim>\<open>int\<close>, the parser returns \<open>N\<close> times that
  multiplier and no error: 60000 for m, 3600000 for h, 86400000 for d, 604800000 for w.
  The claim as stated also gives every other unit character the multiplier 1, and has
  no bound on \<open>N\<close>: \<^verbatim>\<open>-5x\<close> does not yield 5, and the product wraps around
  for \<^verbatim>\<open>-9223372036854775807w\<close>.
\<close>

theorem parser_multiplies_by_unit:
  assumes "ds \<noteq> []" and "list_all is_digit ds" and "is_unit_char u"
    and "dec ds * spec_multiplier u < 2 ^ 63"
  shows "\<exists>r. fromRangeToMilliSeconds (CHR ''-'' # ds @ u # suf) = Return (r, None) \<and>
             sint r = int (dec ds) * int (spec_multiplier u)"
proof -
  have "1 \<le> spec_multiplier u" by (simp add: spec_multiplier_def)
  then have "dec ds * 1 \<le> dec ds * spec_multiplier u" by (rule mult_le_mono2)
  then have small: "dec ds < 2 ^ 63" using assms(4) by (simp only: mult_1_right le_less_trans)
  have "fromRangeToMilliSeconds (CHR ''-'' # ds @ u # suf) =
          Return (word_of_nat (dec ds * spec_multiplier u), None)"
    using assms(1-3) small by (rule fromRange_shape)
  moreover have "sint (word_of_nat (dec ds * spec_multiplier u) :: 64 word) =
          int (dec ds) * int (spec_multiplier u)"
    using sint_small[OF assms(4)] by simp
  ultimately show ?thesis by blast
qed

theorem parser_multiplies_by_unit_witness:
  "(\<exists>r. fromRangeToMilliSeconds ''-5m'' = Return (r, None) \<and> sint r = 300000) \<and>
   (\<exists>r. fromRangeToMilliSeconds ''-1h'' = Return (r, None) \<and> sint r = 3600000) \<and>
   (\<exists>r. fromRangeToMilliSeconds ''-2d'' = Return (r, None) \<and> sint r = 172800000) \<and>
   (\<exists>r. fromRangeToMilliSeconds ''-1w'' = Return (r, None) \<and> sint r = 604800000)"
  using parser_multiplies_by_unit[of "''5''" "CHR ''m''" "[]"]
    parser_multiplies_by_unit[of "''1''" "CHR ''h''" "[]"]
    parser_multiplies_by_unit[of "''2''" "CHR ''d''" "[]"]
    parser_multiplies_by_unit[of "''1''" "CHR ''w''" "[]"]
  by (simp add: is_digit_def is_unit_char_def dec_def digit_val_def spec_multiplier_def)

theorem parser_unknown_unit_counterexample:
  "fromRangeToMilliSeconds ''-5x'' = Panic IndexOutOfRange \<and>
   fromRangeToMilliSeconds ''-9223372036854775807w'' = Return (- 604800000, None)"
  by (simp add: parser_eval)




section \<open>The color-scale builder sorts\<close>

lemma mset_insert_by: "mset (insert_by lessf x xs) = add_mset x (mset xs)"
  by (induction xs) auto

lemma mset_Sort: "mset (Sort lessf xs) = mset xs"
  by (induction xs) (auto simp: Sort_def mset_insert_by)

lemma set_insert_by: "set (insert_by lessf x xs) = insert x (set xs)"
  by (induction xs) auto

lemma sorted_insert_by:
  "sorted_wrt (\<ge>) xs \<Longrightarrow> sorted_wrt (\<ge>) (insert_by (Reverse IntSlice_Less) x xs)"
  by (induction xs) (auto simp: set_insert_by Reverse_def IntSlice_Less_def)

lemma sorted_Sort: "sorted_wrt (\<ge>) (Sort (Reverse IntSlice_Less) xs)"
  by (induction xs) (auto simp: Sort_def sorted_insert_by)

lemma insert_by_sorted:
  "sorted_wrt (\<ge>) (x # xs) \<Longrightarrow> insert_by (Reverse IntSlice_Less) x xs = x # xs"
  by (cases xs) (auto simp: Reverse_def IntSlice_Less_def)

lemma Sort_sorted: "sorted_wrt (\<ge>) xs \<Longrightarrow> Sort (Reverse IntSlice_Less) xs = xs"
proof (induction xs)
  case Nil
  then show ?case by (simp add: Sort_def)
next
  case (Cons x xs)
  then have "Sort (Reverse IntSlice_Less) xs = xs" by simp
  then have "Sort (Reverse IntSlice_Less) (x # xs) = insert_by (Reverse IntSlice_Less) x xs"
    by (simp add: Sort_def)
  then show ?case using insert_by_sorted[OF Cons.prems] by simp
qed

text \<open>
  Claim C9. The builder returns the thresholds of the first element of the set in
  descending order, the same thresholds as it was given, with the inverted flag copied;
  thresholds that are already in descending order come back unchanged, and so does the
  builder's own result. \<open>[3, 1, 2]\<close> with \<open>inverted = False\<close> gives \<open>[3, 2, 1]\<close> with
  \<open>inverted = False\<close>.
\<close>

theorem color_scale_sorted_descending:
  "\<exists>out. getColorScaleOptions (options # others) = Return out \<and>
     sorted_wrt (\<ge>) (thresholds out) \<and>
     mset (thresholds out) = mset (thresholds options) \<and>
     inverted out = inverted options \<and>
     (sorted_wrt (\<ge>) (thresholds options) \<longrightarrow> thresholds out = thresholds options) \<and>
     getColorScaleOptions [out] = Return out"
  by (simp add: getColorScaleOptions_def index_def sorted_Sort mset_Sort Sort_sorted)

theorem color_scale_sorted_descending_witness:
  "getColorScaleOptions [\<lparr>thresholds = [3, 1, 2], inverted = False\<rparr>] =
     Return \<lparr>thresholds = [3, 2, 1], inverted = False\<rparr> \<and>
   getColorScaleOptions [\<lparr>thresholds = [3, 2, 1], inverted = False\<rparr>] =
     Return \<lparr>thresholds = [3, 2, 1], inverted = False\<rparr>"
proof -
  have a: "getColorScaleOptions [\<lparr>thresholds = [3, 1, 2], inverted = False\<rparr>] =
     Return \<lparr>thresholds = [3, 2, 1], inverted = False\<rparr>"
    by (simp add: getColorScaleOptions_def index_def Sort_def Reverse_def IntSlice_Less_def)
  show ?thesis
    using color_scale_sorted_descending[of "\<lparr>thresholds = [3, 1, 2], inverted = False\<rparr>" "[]"]
    unfolding a by simp
qed

section \<open>The transport\<close>

lemma sendRequest_refused:
  assumes "request_error env method url = None"
    and "round_trip env
           \<lparr>Method = method, URL = url, Payload = payload,
            Header = [(''Content-Type'', ''application/json''), (''X-SF-Token'', token)]\<rparr> = Inl cause"
  shows "sendRequest env method url token payload = Return (- 1, None, Some (SendFailed method cause))"
  using assms by (simp add: sendRequest_def)

lemma sendRequest_server:
  "sendRequest (server st bs) method url token payload = Return (st, Some bs, None)"
  by (simp add: sendRequest_def server_def)

lemma sendRequest_refusing:
  "sendRequest refusing method url token payload =
     Return (- 1, None, Some (SendFailed method ''connection refused''))"
  by (simp add: sendRequest_def refusing_def)

text \<open>
  Claim C7. The claim: every failure to send, a malformed request among them, gives a
  transport error with status \<open>-1\<close> and no body, and no crash. A connection that
  fails does (\<open>sendRequest_refused\<close>). A malformed request does not: the error of
  \<^verbatim>\<open>http.NewRequest\<close> is dropped and the nil request is dereferenced.
\<close>

theorem sendRequest_malformed_request:
  "request_error env method url = Some cause \<Longrightarrow>
     sendRequest env method url token payload = Panic NilDereference"
  by (simp add: sendRequest_def)

theorem sendRequest_malformed_request_witness:
  "sendRequest rejecting ''GET'' ''https://api.signalfx.com/v2/chart/%zz'' ''token'' [] =
     Panic NilDereference"
  using sendRequest_malformed_request[of rejecting "''GET''"
      "''https://api.signalfx.com/v2/chart/%zz''" "''invalid URL escape''" "''token''" "[]"]
  by (simp add: rejecting_def)

section \<open>The sum of two float64 values\<close>

lemma round_half_even_exact:
  assumes "2 ^ k dvd a"
  shows "round_half_even a k = a"
proof -
  have r: "a mod 2 ^ k = 0" using assms by (simp add: mod_eq_0_iff_dvd)
  have q: "a div 2 ^ k * 2 ^ k = a" using assms by simp
  show ?thesis unfolding round_half_even_def Let_def r using q by simp
qed

lemma round_half_even_scale:
  "round_half_even (a * 2 ^ c) (k + c) = round_half_even a k * 2 ^ c"
proof -
  have p: "(2::int) ^ (k + c) = 2 ^ k * 2 ^ c" by (simp add: power_add)
  have dq: "(a * 2 ^ c) div (2 ^ k * 2 ^ c) = a div 2 ^ k" by simp
  have mq: "(a * 2 ^ c) mod (2 ^ k * 2 ^ c) = (a mod 2 ^ k) * 2 ^ c" by simp
  have gt: "\<And>r::int. 2 * (r * 2 ^ c) > 2 ^ k * 2 ^ c \<longleftrightarrow> 2 * r > 2 ^ k"
    by (simp add: mult.assoc[symmetric])
  have eq: "\<And>r::int. 2 * (r * 2 ^ c) = 2 ^ k * 2 ^ c \<longleftrightarrow> 2 * r = 2 ^ k"
    by (simp add: mult.assoc[symmetric])
  show ?thesis
    unfolding round_half_even_def Let_def p dq mq gt eq by (simp add: mult.assoc)
qed

lemma round53_exact:
  assumes "2 ^ nat (bitlen \<bar>S\<bar> - 53) dvd S"
  shows "round53 S = S"
proof -
  have "(2::int) ^ nat (bitlen \<bar>S\<bar> - 53) dvd \<bar>S\<bar>" using assms by simp
  then have "round_half_even \<bar>S\<bar> (nat (bitlen \<bar>S\<bar> - 53)) = \<bar>S\<bar>"
    by (rule round_half_even_exact)
  then show ?thesis by (simp add: round53_def mult_sgn_abs)
qed

lemma round53_short:
  assumes "\<bar>n\<bar> < 2 ^ 53"
  shows "round53 n = n"
proof -
  have "bitlen \<bar>n\<bar> \<le> 53" using assms by (simp add: bitlen_le_iff_power)
  then have "nat (bitlen \<bar>n\<bar> - 53) = 0" by simp
  then show ?thesis by (intro round53_exact) simp
qed

lemma round53_scale: "round53 (n * 2 ^ c) = round53 n * 2 ^ c"
proof (cases "n = 0")
  case True
  then show ?thesis by (simp add: round53_def)
next
  case False
  then have pos: "0 < \<bar>n\<bar>" by simp
  have ab: "\<bar>n * 2 ^ c\<bar> = \<bar>n\<bar> * 2 ^ c" by (simp add: abs_mult)
  have bl: "bitlen (\<bar>n\<bar> * 2 ^ c) = bitlen \<bar>n\<bar> + int c"
    using bitlen_pow2[OF pos, of c] by simp
  show ?thesis
  proof (cases "bitlen \<bar>n\<bar> \<le> 53")
    case True
    then have "nat (bitlen \<bar>n\<bar> - 53) = 0" by simp
    then have small: "round53 n = n" by (intro round53_exact) simp
    have "nat (bitlen \<bar>n * 2 ^ c\<bar> - 53) \<le> c" using True bl ab by simp
    then have "(2::int) ^ nat (bitlen \<bar>n * 2 ^ c\<bar> - 53) dvd 2 ^ c"
      by (rule le_imp_power_dvd)
    then have "(2::int) ^ nat (bitlen \<bar>n * 2 ^ c\<bar> - 53) dvd n * 2 ^ c"
      by (rule dvd_mult)
    then have "round53 (n * 2 ^ c) = n * 2 ^ c" by (rule round53_exact)
    then show ?thesis using small by simp
  next
    case False
    let ?k = "nat (bitlen \<bar>n\<bar> - 53)"
    have k: "nat (bitlen (\<bar>n\<bar> * 2 ^ c) - 53) = ?k + c" using False bl by simp
    have sg: "sgn (n * 2 ^ c) = sgn n" by (simp add: sgn_mult)
    show ?thesis
      unfolding round53_def ab k sg round_half_even_scale by (simp add: mult.assoc)
  qed
qed

lemma float64_add_scaled:
  "real_of_int (round53 \<lfloor>(real_of_int i + real_of_int j) * 2 ^ c\<rfloor>) / 2 ^ c =
     real_of_int (round53 (i + j))"
proof -
  have "(of_int i + of_int j :: real) * 2 ^ c = of_int ((i + j) * 2 ^ c)" by simp
  then have "\<lfloor>(of_int i + of_int j :: real) * 2 ^ c\<rfloor> = (i + j) * 2 ^ c"
    by (simp only: floor_of_int)
  then show ?thesis by (simp add: round53_scale)
qed

lemma float64_add_ints: "float64_add (of_int i) (of_int j) = of_int (round53 (i + j))"
  unfolding float64_add_def by (rule float64_add_scaled)

lemma round_half_even_near:
  "2 ^ k dvd round_half_even a k \<and> 2 * \<bar>round_half_even a k - a\<bar> \<le> 2 ^ k"
proof -
  define p :: int where "p = 2 ^ k"
  define q where "q = a div p"
  define r where "r = a mod p"
  have p: "0 < p" by (simp add: p_def)
  have a: "a = q * p + r" unfolding q_def r_def by (rule div_mult_mod_eq[symmetric])
  have r: "0 \<le> r" "r < p" using p by (simp_all add: r_def)
  show ?thesis
  proof (cases "2 * r > p \<or> (2 * r = p \<and> odd q)")
    case True
    then have v: "round_half_even a k = (q + 1) * p"
      by (simp add: round_half_even_def Let_def p_def q_def r_def)
    have "(q + 1) * p - a = p - r" using a by (simp add: algebra_simps)
    moreover have "p \<le> 2 * r" using True by auto
    then have "2 * \<bar>p - r\<bar> \<le> p" using r by (simp add: abs_if)
    ultimately have "2 * \<bar>(q + 1) * p - a\<bar> \<le> p" by simp
    then show ?thesis unfolding v by (simp add: p_def)
  next
    case False
    then have v: "round_half_even a k = q * p"
      by (auto simp: round_half_even_def Let_def p_def q_def r_def)
    have "q * p - a = - r" using a by (simp add: algebra_simps)
    moreover have "2 * r \<le> p" using False by auto
    then have "2 * \<bar>- r\<bar> \<le> p" using r by (simp add: abs_if)
    ultimately have "2 * \<bar>q * p - a\<bar> \<le> p" by simp
    then show ?thesis unfolding v by (simp add: p_def)
  qed
qed

lemma float64_add_exact:
  assumes "\<bar>i + j\<bar> < 2 ^ 53"
  shows "float64_add (of_int i) (of_int j) = of_int i + of_int j"
  by (simp add: float64_add_ints round53_short[OF assms])

lemma float64_add_1000: "float64_add 1000 10000 = 11000"
  using float64_add_exact[of 1000 10000] by simp

lemma round53_tie: "round53 144115188075865904 = 144115188075865920"
  by code_simp

lemma float64_add_tie: "float64_add 144115188075855904 10000 = 144115188075865920"
  using float64_add_ints[of 144115188075855904 10000] by (simp add: round53_tie)

section \<open>Read\<close>

text \<open>
  Claim C1, as amended. On a response with status 200 whose decoded object has the
  number \<open>remote\<close> under \<^verbatim>\<open>lastUpdated\<close>: when \<open>remote\<close> is greater than the
  \<^verbatim>\<open>float64\<close> sum of the local \<open>last_updated\<close> and \<^verbatim>\<open>OFFSET\<close>, which is
  10000, Read sets \<open>synced\<close> to false and \<open>last_updated\<close> to \<open>remote\<close>; when it
  is equal to that sum or smaller, the local state is unchanged. The \<^verbatim>\<open>float64\<close>
  sum is the exact sum when \<open>last_updated\<close> is an integer and the exact sum is below
  \<open>2 ^ 53\<close> in absolute value. The claim as stated compares with the exact sum
  everywhere: for the local value \<open>2 ^ 57 + 32\<close> and the remote value
  \<open>2 ^ 57 + 10048\<close> the remote value is greater than the exact sum, the rounded
  sum is the remote value itself, and the state is unchanged.
\<close>

theorem read_drift_detection:
  assumes "sendRequest env ''GET'' url sfxToken [] = Return (200, resp_body, err)"
    and "unmarshal (bytes resp_body) = Inr mapped_resp"
    and "mapped_resp ''lastUpdated'' = Some (JNumber remote)"
  shows "OFFSET = 10000 \<and>
         (remote > float64_add (last_updated d) OFFSET \<longrightarrow>
            resourceRead float64_add env unmarshal url sfxToken d =
              Return (d\<lparr>synced := False, last_updated := remote\<rparr>, None)) \<and>
         (remote = float64_add (last_updated d) OFFSET \<or>
          remote < float64_add (last_updated d) OFFSET \<longrightarrow>
            resourceRead float64_add env unmarshal url sfxToken d = Return (d, None)) \<and>
         (\<forall>i. last_updated d = of_int i \<and> \<bar>i + 10000\<bar> < 2 ^ 53 \<longrightarrow>
            float64_add (last_updated d) OFFSET = last_updated d + 10000)"
proof -
  have exact: "\<forall>i. last_updated d = of_int i \<and> \<bar>i + 10000\<bar> < 2 ^ 53 \<longrightarrow>
      float64_add (last_updated d) OFFSET = last_updated d + 10000"
    using float64_add_exact[of _ 10000] by (auto simp: OFFSET_def)
  show ?thesis
    using assms exact by (auto simp: resourceRead_def as_float64_def OFFSET_def)
qed

theorem read_drift_detection_witness:
  "resourceRead float64_add (server 200 (chart_body ''cpu'' ''11001''))
     (decoding [(chart_body ''cpu'' ''11001'',
        [(''name'', JString ''cpu''), (''lastUpdated'', JNumber (1000 + 10000 + 1))])])
     ''url'' ''token''
     \<lparr>rid = ''abc'', name = ''cpu'', last_updated = 1000, synced = True\<rparr> =
     Return (\<lparr>rid = ''abc'', name = ''cpu'', last_updated = 11001, synced = False\<rparr>, None) \<and>
   resourceRead float64_add (server 200 (chart_body ''cpu'' ''11000''))
     (decoding [(chart_body ''cpu'' ''11000'',
        [(''name'', JString ''cpu''), (''lastUpdated'', JNumber (1000 + 10000))])])
     ''url'' ''token''
     \<lparr>rid = ''abc'', name = ''cpu'', last_updated = 1000, synced = True\<rparr> =
     Return (\<lparr>rid = ''abc'', name = ''cpu'', last_updated = 1000, synced = True\<rparr>, None) \<and>
   float64_add 1000 10000 = 1000 + 10000"
  using read_drift_detection[where env = "server 200 (chart_body ''cpu'' ''11001'')"
      and url = "''url''" and sfxToken = "''token''"
      and resp_body = "Some (chart_body ''cpu'' ''11001'')" and err = None
      and unmarshal = "decoding [(chart_body ''cpu'' ''11001'',
        [(''name'', JString ''cpu''), (''lastUpdated'', JNumber (1000 + 10000 + 1))])]"
      and mapped_resp = "map_of [(''name'', JString ''cpu''), (''lastUpdated'', JNumber 11001)]"
      and remote = 11001
      and d = "\<lparr>rid = ''abc'', name = ''cpu'', last_updated = 1000, synced = True\<rparr>"]
    read_drift_detection[where env = "server 200 (chart_body ''cpu'' ''11000'')"
      and url = "''url''" and sfxToken = "''token''"
      and resp_body = "Some (chart_body ''cpu'' ''11000'')" and err = None
      and unmarshal = "decoding [(chart_body ''cpu'' ''11000'',
        [(''name'', JString ''cpu''), (''lastUpdated'', JNumber (1000 + 10000))])]"
      and mapped_resp = "map_of [(''name'', JString ''cpu''), (''lastUpdated'', JNumber 11000)]"
      and remote = 11000
      and d = "\<lparr>rid = ''abc'', name = ''cpu'', last_updated = 1000, synced = True\<rparr>"]
  by (simp add: sendRequest_server decoding_def bytes_def OFFSET_def float64_add_1000)

theorem read_drift_rounded_sum_counterexample:
  "(144115188075865920 :: real) > 144115188075855904 + 10000 \<and>
   resourceRead float64_add (server 200 (chart_body ''cpu'' ''144115188075865920''))
     (decoding [(chart_body ''cpu'' ''144115188075865920'',
        [(''name'', JString ''cpu''), (''lastUpdated'', JNumber 144115188075865920)])])
     ''url'' ''token''
     \<lparr>rid = ''abc'', name = ''cpu'', last_updated = 144115188075855904, synced = True\<rparr> =
     Return (\<lparr>rid = ''abc'', name = ''cpu'', last_updated = 144115188075855904,
       synced = True\<rparr>, None)"
  by (simp add: resourceRead_def sendRequest_server decoding_def bytes_def as_float64_def
      OFFSET_def float64_add_tie)

text \<open>
  Claim C8. On a response with status 200, a Read that returns has changed no field
  other than \<open>synced\<close> and \<open>last_updated\<close>: the identifier, the name and every
  other field of the resource are as they were.
\<close>

theorem read_200_frame:
  assumes "sendRequest env ''GET'' url sfxToken [] = Return (200, resp_body, err)"
    and "resourceRead fadd env unmarshal url sfxToken d = Return (d', e)"
  shows "rid d' = rid d \<and> name d' = name d \<and> resource_data.more d' = resource_data.more d \<and>
         d' = d\<lparr>synced := synced d', last_updated := last_updated d'\<rparr>"
  using assms
  by (auto simp: resourceRead_def as_float64_def split: sum.splits outcome.splits if_splits)

theorem read_200_frame_witness:
  "resourceRead float64_add (server 200 (chart_body ''cpu'' ''11001''))
     (decoding [(chart_body ''cpu'' ''11001'',
        [(''name'', JString ''cpu''), (''lastUpdated'', JNumber 11001)])])
     ''url'' ''token''
     \<lparr>rid = ''abc'', name = ''cpu'', last_updated = 1000, synced = True,
      \<dots> = [(''description'', ''load'')]\<rparr> =
     Return (\<lparr>rid = ''abc'', name = ''cpu'', last_updated = 11001, synced = False,
      \<dots> = [(''description'', ''load'')]\<rparr>, None)"
proof -
  let ?d = "\<lparr>rid = ''abc'', name = ''cpu'', last_updated = 1000, synced = True,
      \<dots> = [(''description'', ''load'')]\<rparr>"
  let ?env = "server 200 (chart_body ''cpu'' ''11001'')"
  let ?dec = "decoding [(chart_body ''cpu'' ''11001'',
        [(''name'', JString ''cpu''), (''lastUpdated'', JNumber 11001)])]"
  have run: "resourceRead float64_add ?env ?dec ''url'' ''token'' ?d =
     Return (?d\<lparr>synced := False, last_updated := 11001\<rparr>, None)"
    by (simp add: resourceRead_def sendRequest_server decoding_def bytes_def as_float64_def
        OFFSET_def float64_add_1000)
  have "sendRequest ?env ''GET'' ''url'' ''token'' [] =
      Return (200, Some (chart_body ''cpu'' ''11001''), None)"
    by (simp add: sendRequest_server)
  from read_200_frame[OF this run] run show ?thesis by simp
qed

text \<open>
  Claim C4, as amended. On a response with a status other than 200: when the body
  contains \<^verbatim>\<open>Resource not found\<close>, Read clears the identifier and returns no
  error; otherwise it fails with the upstream error that holds the name of the
  resource, the status and the body. The claim as stated covers every status: on status
  200 the body is decoded and the marker is not looked for, so the identifier of a
  chart whose title is the marker stays.
\<close>

theorem read_not_found_non_200:
  assumes "sendRequest env ''GET'' url sfxToken [] = Return (status_code, resp_body, err)"
    and "status_code \<noteq> 200"
  shows "((\<exists>pre suf. bytes resp_body = pre @ ''Resource not found'' @ suf) \<longrightarrow>
            resourceRead fadd env unmarshal url sfxToken d = Return (d\<lparr>rid := []\<rparr>, None)) \<and>
         (\<not> (\<exists>pre suf. bytes resp_body = pre @ ''Resource not found'' @ suf) \<longrightarrow>
            resourceRead fadd env unmarshal url sfxToken d =
              Return (d, Some (BadStatus (name d) status_code (bytes resp_body))) \<and>
            kind (BadStatus (name d) status_code (bytes resp_body)) = UpstreamError)"
proof -
  have c: "(\<exists>pre suf. bytes resp_body = pre @ ''Resource not found'' @ suf) \<longleftrightarrow>
      Contains (bytes resp_body) ''Resource not found''"
    by (rule Contains_iff[symmetric])
  show ?thesis unfolding c using assms by (simp add: resourceRead_def)
qed

theorem read_not_found_non_200_witness:
  "resourceRead float64_add (server 404 not_found_body) (decoding []) ''url'' ''token''
     \<lparr>rid = ''abc'', name = ''cpu'', last_updated = 1000, synced = True\<rparr> =
     Return (\<lparr>rid = [], name = ''cpu'', last_updated = 1000, synced = True\<rparr>, None) \<and>
   resourceRead float64_add (server 500 ''server error'') (decoding []) ''url'' ''token''
     \<lparr>rid = ''abc'', name = ''cpu'', last_updated = 1000, synced = True\<rparr> =
     Return (\<lparr>rid = ''abc'', name = ''cpu'', last_updated = 1000, synced = True\<rparr>,
       Some (BadStatus ''cpu'' 500 ''server error''))"
proof -
  have a: "\<exists>pre suf. bytes (Some not_found_body) = pre @ ''Resource not found'' @ suf"
    unfolding Contains_iff[symmetric] by (simp add: bytes_def not_found_body_def)
  have b: "\<not> (\<exists>pre suf. bytes (Some ''server error'') = pre @ ''Resource not found'' @ suf)"
    unfolding Contains_iff[symmetric] by (simp add: bytes_def)
  show ?thesis
    using read_not_found_non_200[where env = "server 404 not_found_body" and status_code = 404
        and resp_body = "Some not_found_body" and err = None and unmarshal = "decoding []"
        and url = "''url''" and sfxToken = "''token''" and fadd = float64_add
        and d = "\<lparr>rid = ''abc'', name = ''cpu'', last_updated = 1000, synced = True\<rparr>"] a
      read_not_found_non_200[where env = "server 500 ''server error''" and status_code = 500
        and resp_body = "Some ''server error''" and err = None and unmarshal = "decoding []"
        and url = "''url''" and sfxToken = "''token''" and fadd = float64_add
        and d = "\<lparr>rid = ''abc'', name = ''cpu'', last_updated = 1000, synced = True\<rparr>"] b
    by (simp add: bytes_def sendRequest_server)
qed

theorem read_not_found_200_counterexample:
  "Contains (chart_body ''Resource not found'' ''1000'') ''Resource not found'' \<and>
   resourceRead float64_add (server 200 (chart_body ''Resource not found'' ''1000''))
     (decoding [(chart_body ''Resource not found'' ''1000'',
        [(''name'', JString ''Resource not found''), (''lastUpdated'', JNumber 1000)])])
     ''url'' ''token''
     \<lparr>rid = ''abc'', name = ''cpu'', last_updated = 1000, synced = True\<rparr> =
     Return (\<lparr>rid = ''abc'', name = ''cpu'', last_updated = 1000, synced = True\<rparr>, None)"
  by (simp add: resourceRead_def sendRequest_server decoding_def bytes_def as_float64_def
      OFFSET_def chart_body_def float64_add_1000)

section \<open>Delete\<close>

lemma delete_outcomes:
  assumes "sendRequest env ''DELETE'' url sfxToken [] = Return (status_code, resp_body, err)"
  shows "(\<forall>e. err = Some e \<longrightarrow>
            resourceDelete env url sfxToken d = Return (d, Some (DeleteFailed (name d) e)) \<and>
            kind (DeleteFailed (name d) e) = TransportError) \<and>
         (err = None \<and> (status_code < 400 \<or> status_code = 404) \<longrightarrow>
            resourceDelete env url sfxToken d = Return (d\<lparr>rid := []\<rparr>, None)) \<and>
         (err = None \<and> status_code \<ge> 400 \<and> status_code \<noteq> 404 \<longrightarrow>
            resourceDelete env url sfxToken d =
              Return (d, Some (BadStatus (name d) status_code (bytes resp_body))) \<and>
            kind (BadStatus (name d) status_code (bytes resp_body)) = UpstreamError)"
  using assms by (auto simp: resourceDelete_def)

lemma delete_outcomes_runs:
  "resourceDelete refusing ''url'' ''token''
     \<lparr>rid = ''abc'', name = ''cpu'', last_updated = 1000, synced = True\<rparr> =
     Return (\<lparr>rid = ''abc'', name = ''cpu'', last_updated = 1000, synced = True\<rparr>,
       Some (DeleteFailed ''cpu'' (SendFailed ''DELETE'' ''connection refused''))) \<and>
   resourceDelete (server 404 ''gone'') ''url'' ''token''
     \<lparr>rid = ''abc'', name = ''cpu'', last_updated = 1000, synced = True\<rparr> =
     Return (\<lparr>rid = [], name = ''cpu'', last_updated = 1000, synced = True\<rparr>, None) \<and>
   resourceDelete (server 204 []) ''url'' ''token''
     \<lparr>rid = ''abc'', name = ''cpu'', last_updated = 1000, synced = True\<rparr> =
     Return (\<lparr>rid = [], name = ''cpu'', last_updated = 1000, synced = True\<rparr>, None) \<and>
   resourceDelete (server 500 ''server error'') ''url'' ''token''
     \<lparr>rid = ''abc'', name = ''cpu'', last_updated = 1000, synced = True\<rparr> =
     Return (\<lparr>rid = ''abc'', name = ''cpu'', last_updated = 1000, synced = True\<rparr>,
       Some (BadStatus ''cpu'' 500 ''server error''))"
  using delete_outcomes[OF sendRequest_refusing, of "''url''" "''token''"
      "\<lparr>rid = ''abc'', name = ''cpu'', last_updated = 1000, synced = True\<rparr>"]
    delete_outcomes[OF sendRequest_server, of 404 "''gone''" "''url''" "''token''"
      "\<lparr>rid = ''abc'', name = ''cpu'', last_updated = 1000, synced = True\<rparr>"]
    delete_outcomes[OF sendRequest_server, of 204 "[]" "''url''" "''token''"
      "\<lparr>rid = ''abc'', name = ''cpu'', last_updated = 1000, synced = True\<rparr>"]
    delete_outcomes[OF sendRequest_server, of 500 "''server error''" "''url''" "''token''"
      "\<lparr>rid = ''abc'', name = ''cpu'', last_updated = 1000, synced = True\<rparr>"]
  by (simp add: bytes_def)

text \<open>
  Claim C5. The claim: on a transport-level failure Delete fails at once with a
  transport error; on a status below 400 or equal to 404 it clears the identifier; on
  any other status it fails with the upstream error and leaves the identifier. Delete
  does so whenever the request is sent (\<open>delete_outcomes\<close>). A malformed request is a
  transport-level failure too, and there Delete does not return a transport error: it
  panics inside \<^verbatim>\<open>sendRequest\<close>, before the check of the error. It is the defect
  of claim C7.
\<close>

theorem delete_malformed_request_panics:
  "request_error env ''DELETE'' url = Some cause \<Longrightarrow>
     resourceDelete env url sfxToken d = Panic NilDereference"
  by (simp add: resourceDelete_def sendRequest_def)

theorem delete_malformed_request_panics_witness:
  "resourceDelete rejecting ''https://api.signalfx.com/v2/chart/%zz'' ''token''
     \<lparr>rid = ''%zz'', name = ''cpu'', last_updated = 1000, synced = True\<rparr> =
     Panic NilDereference"
  using delete_malformed_request_panics[of rejecting "''https://api.signalfx.com/v2/chart/%zz''"
      "''invalid URL escape''" "''token''"
      "\<lparr>rid = ''%zz'', name = ''cpu'', last_updated = 1000, synced = True\<rparr>"]
  by (simp add: rejecting_def)

section \<open>Create\<close>

lemma create_decoded:
  assumes "sendRequest env ''POST'' url sfxToken payload = Return (200, resp_body, err)"
    and "unmarshal (bytes resp_body) = Inr mapped_resp"
    and "mapped_resp ''id'' = Some (JString new_id)"
    and "mapped_resp ''lastUpdated'' = Some (JNumber remote)"
  shows "resourceCreate env unmarshal url sfxToken payload d =
           Return (d\<lparr>rid := new_id, last_updated := remote, synced := True\<rparr>, None)"
  using assms by (simp add: resourceCreate_def as_string_def as_float64_def)

lemma create_undecodable:
  assumes "sendRequest env ''POST'' url sfxToken payload = Return (200, resp_body, err)"
    and "unmarshal (bytes resp_body) = Inl cause"
  shows "resourceCreate env unmarshal url sfxToken payload d =
           Return (d, Some (UnmarshalFailed (name d) ''creation'' cause))"
  using assms by (simp add: resourceCreate_def)

lemma create_bad_status:
  assumes "sendRequest env ''POST'' url sfxToken payload = Return (status_code, resp_body, err)"
    and "status_code \<noteq> 200"
  shows "resourceCreate env unmarshal url sfxToken payload d =
           Return (d, Some (BadStatus (name d) status_code (bytes resp_body)))"
  using assms by (simp add: resourceCreate_def)

lemma create_decoded_run:
  "resourceCreate (server 200 created_body)
     (decoding [(created_body, [(''id'', JString ''abc''), (''lastUpdated'', JNumber 1000)])])
     ''url'' ''token'' ''payload''
     \<lparr>rid = [], name = ''cpu'', last_updated = 0, synced = False\<rparr> =
     Return (\<lparr>rid = ''abc'', name = ''cpu'', last_updated = 1000, synced = True\<rparr>, None)"
  by (simp add: resourceCreate_def sendRequest_server decoding_def bytes_def as_string_def
      as_float64_def)

text \<open>
  Claim C6. The claim: on status 200, a body that is not JSON or lacks \<^verbatim>\<open>id\<close> or
  \<^verbatim>\<open>lastUpdated\<close> gives a decode error and no crash. A body that does not decode
  does (\<open>create_undecodable\<close>), and so do a decoded body with both fields
  (\<open>create_decoded\<close>) and a status other than 200 (\<open>create_bad_status\<close>). A decoded
  body without a string \<^verbatim>\<open>id\<close> or without a number \<^verbatim>\<open>lastUpdated\<close> does not:
  the type assertion panics, as on \<^verbatim>\<open>{}\<close>.
\<close>

theorem create_missing_fields_panics:
  assumes "sendRequest env ''POST'' url sfxToken payload = Return (200, resp_body, err)"
    and "unmarshal (bytes resp_body) = Inr mapped_resp"
    and "(\<forall>s. mapped_resp ''id'' \<noteq> Some (JString s)) \<or>
         (\<forall>x. mapped_resp ''lastUpdated'' \<noteq> Some (JNumber x))"
  shows "resourceCreate env unmarshal url sfxToken payload d = Panic TypeAssertion"
  using assms
  by (auto simp: resourceCreate_def as_string_def as_float64_def Let_def
      split: option.splits json.splits)

theorem create_missing_fields_panics_witness:
  "resourceCreate (server 200 ''{}'') (decoding [(''{}'', [])]) ''url'' ''token'' ''payload''
     \<lparr>rid = [], name = ''cpu'', last_updated = 0, synced = False\<rparr> = Panic TypeAssertion"
  using create_missing_fields_panics[where env = "server 200 ''{}''" and url = "''url''"
      and sfxToken = "''token''" and payload = "''payload''" and resp_body = "Some ''{}''"
      and err = None and unmarshal = "decoding [(''{}'', [])]" and mapped_resp = "map_of []"
      and d = "\<lparr>rid = [], name = ''cpu'', last_updated = 0, synced = False\<rparr>"]
  by (simp add: sendRequest_server decoding_def bytes_def)

end
